theory Spec2Isabelle
  imports Main "HOL-Library.Word"
begin

section \<open>JavaScript strings\<close>

text \<open>
  A JavaScript string is a sequence of 16-bit code units. ASCII literals of the source are
  written with \<open>js\<close>; the Arabic literals are written out as their code units.
\<close>

type_synonym jschar = "16 word"
type_synonym jsstring = "jschar list"

definition js :: "string \<Rightarrow> jsstring" where
  "js s = map of_char s"

text \<open>The values the helpers receive: a string, or \<open>undefined\<close>/\<open>null\<close>.\<close>

datatype jsval = Undefined | Null | Str jsstring

text \<open>\<^verbatim>\<open>String(v || "")\<close>: \<open>undefined\<close>, \<open>null\<close> and the empty string are falsy.\<close>

fun String_or_empty :: "jsval \<Rightarrow> jsstring" where
  "String_or_empty (Str s) = s"
| "String_or_empty Undefined = []"
| "String_or_empty Null = []"

text \<open>
  The characters of the \<open>WhiteSpace\<close> and \<open>LineTerminator\<close> productions: what
  \<^verbatim>\<open>trim()\<close> strips and what \<^verbatim>\<open>\s\<close> matches.
\<close>

definition isWhiteSpace :: "jschar \<Rightarrow> bool" where
  "isWhiteSpace c \<longleftrightarrow>
     c = 0x09 \<or> c = 0x0A \<or> c = 0x0B \<or> c = 0x0C \<or> c = 0x0D \<or> c = 0x20 \<or>
     c = 0xA0 \<or> c = 0x1680 \<or> (0x2000 \<le> c \<and> c \<le> 0x200A) \<or>
     c = 0x2028 \<or> c = 0x2029 \<or> c = 0x202F \<or> c = 0x205F \<or> c = 0x3000 \<or>
     c = 0xFEFF"

definition trim :: "jsstring \<Rightarrow> jsstring" where
  "trim s = rev (dropWhile isWhiteSpace (rev (dropWhile isWhiteSpace s)))"

text \<open>\<^verbatim>\<open>s.replace(/\s+/g, "")\<close>\<close>

definition removeWhiteSpace :: "jsstring \<Rightarrow> jsstring" where
  "removeWhiteSpace s = filter (\<lambda>c. \<not> isWhiteSpace c) s"

definition startsWith :: "jsstring \<Rightarrow> jsstring \<Rightarrow> bool" where
  "startsWith s p \<longleftrightarrow> take (length p) s = p"

text \<open>\<^verbatim>\<open>s.includes(p)\<close>\<close>

fun includes_str :: "jsstring \<Rightarrow> jsstring \<Rightarrow> bool" where
  "includes_str [] p = (p = [])"
| "includes_str (c # r) p = (startsWith (c # r) p \<or> includes_str r p)"

subsection \<open>toUpperCase\<close>

text \<open>
  \<^verbatim>\<open>toUpperCase()\<close> reads the string as code points (a leading surrogate followed by a
  trailing one is one code point), maps every code point to its upper-case sequence and
  writes the result back as code units. The mapping of the ASCII range is fixed here; the
  mapping of every other code point comes from the Unicode Character Database, which is
  no part of the repository, and is the parameter \<open>ucd\<close>.
\<close>

definition isLeadingSurrogate :: "jschar \<Rightarrow> bool" where
  "isLeadingSurrogate c \<longleftrightarrow> 0xD800 \<le> c \<and> c \<le> 0xDBFF"

definition isTrailingSurrogate :: "jschar \<Rightarrow> bool" where
  "isTrailingSurrogate c \<longleftrightarrow> 0xDC00 \<le> c \<and> c \<le> 0xDFFF"

fun StringToCodePoints :: "jsstring \<Rightarrow> nat list" where
  "StringToCodePoints [] = []"
| "StringToCodePoints [c] = [unat c]"
| "StringToCodePoints (h # l # r) =
     (if isLeadingSurrogate h \<and> isTrailingSurrogate l
      then (0x10000 + (unat h - 0xD800) * 0x400 + (unat l - 0xDC00)) # StringToCodePoints r
      else unat h # StringToCodePoints (l # r))"

definition UTF16EncodeCodePoint :: "nat \<Rightarrow> jsstring" where
  "UTF16EncodeCodePoint cp =
     (if cp \<le> 0xFFFF then [of_nat cp]
      else [of_nat ((cp - 0x10000) div 0x400 + 0xD800),
            of_nat ((cp - 0x10000) mod 0x400 + 0xDC00)])"

definition CodePointsToString :: "nat list \<Rightarrow> jsstring" where
  "CodePointsToString cps = concat (map UTF16EncodeCodePoint cps)"

definition upperCodePoint :: "(nat \<Rightarrow> nat list) \<Rightarrow> nat \<Rightarrow> nat list" where
  "upperCodePoint ucd cp =
     (if 0x61 \<le> cp \<and> cp \<le> 0x7A then [cp - 0x20]
      else if cp < 0x80 then [cp]
      else ucd cp)"

definition toUpperCase :: "(nat \<Rightarrow> nat list) \<Rightarrow> jsstring \<Rightarrow> jsstring" where
  "toUpperCase ucd s =
     CodePointsToString (concat (map (upperCodePoint ucd) (StringToCodePoints s)))"

text \<open>
  One concrete mapping, for evaluating the functions on closed inputs: the upper-case
  mappings of the Latin-1 Supplement block (U+00B5 to U+039C, U+00DF to "SS", U+00E0..U+00FE
  but U+00F7 to the letter 32 below, U+00FF to U+0178) and of U+017F (long s, to "S");
  every other code point is left as it is.
\<close>

definition latin1_upper :: "nat \<Rightarrow> nat list" where
  "latin1_upper cp =
     (if cp = 0xB5 then [0x39C]
      else if cp = 0xDF then [0x53, 0x53]
      else if 0xE0 \<le> cp \<and> cp \<le> 0xFE \<and> cp \<noteq> 0xF7 then [cp - 0x20]
      else if cp = 0xFF then [0x178]
      else if cp = 0x17F then [0x53]
      else [cp])"

section \<open>Student-ID normalizer\<close>

definition isDigit :: "jschar \<Rightarrow> bool" where
  "isDigit c \<longleftrightarrow> 0x30 \<le> c \<and> c \<le> 0x39"

text \<open>\<^verbatim>\<open>s.match(/^S-?\d+$/)\<close> succeeds\<close>

fun match_S_digits :: "jsstring \<Rightarrow> bool" where
  "match_S_digits (c # d # r) =
     (c = 0x53 \<and> (if d = 0x2D then r \<noteq> [] \<and> list_all isDigit r
                   else list_all isDigit (d # r)))"
| "match_S_digits [c] = False"
| "match_S_digits [] = False"

text \<open>\<^verbatim>\<open>s.match(/^\d+$/)\<close> succeeds\<close>

definition match_digits :: "jsstring \<Rightarrow> bool" where
  "match_digits s \<longleftrightarrow> s \<noteq> [] \<and> list_all isDigit s"

text \<open>\<^verbatim>\<open>s.replace(/^S-?/, "S-")\<close>\<close>

fun replace_S_prefix :: "jsstring \<Rightarrow> jsstring" where
  "replace_S_prefix (c # d # r) =
     (if c = 0x53 then (if d = 0x2D then js ''S-'' @ r else js ''S-'' @ d # r)
      else c # d # r)"
| "replace_S_prefix [c] = (if c = 0x53 then js ''S-'' else [c])"
| "replace_S_prefix [] = []"

definition normalizeStudentId :: "(nat \<Rightarrow> nat list) \<Rightarrow> jsval \<Rightarrow> jsstring" where
  "normalizeStudentId ucd raw =
     (let t = trim (String_or_empty raw) in
      if t = [] then []
      else
        let cleaned = removeWhiteSpace t in
        if startsWith cleaned (js ''{'') \<or> startsWith cleaned (js ''http'') \<or>
           includes_str cleaned (js ''://'')
        then []
        else
          let s = toUpperCase ucd cleaned in
          if \<not> (match_S_digits s \<or> match_digits s) then []
          else if startsWith s (js ''S'') then replace_S_prefix s else s)"

text \<open>
  The two intermediate forms the specification speaks of: the trimmed, whitespace-stripped
  form of the input, and its upper-cased form.
\<close>

definition cleaned_form :: "jsval \<Rightarrow> jsstring" where
  "cleaned_form raw = removeWhiteSpace (trim (String_or_empty raw))"

definition upper_form :: "(nat \<Rightarrow> nat list) \<Rightarrow> jsval \<Rightarrow> jsstring" where
  "upper_form ucd raw = toUpperCase ucd (cleaned_form raw)"

section \<open>Truthiness\<close>

fun truthy :: "jsval \<Rightarrow> bool" where
  "truthy (Str s) = (s \<noteq> [])"
| "truthy Undefined = False"
| "truthy Null = False"

text \<open>\<^verbatim>\<open>a || b\<close>\<close>

definition js_or :: "jsval \<Rightarrow> jsval \<Rightarrow> jsval" where
  "js_or a b = (if truthy a then a else b)"

text \<open>\<^verbatim>\<open>a || "literal"\<close>, which is a string whatever \<open>a\<close> is\<close>

definition str_or :: "jsval \<Rightarrow> jsstring \<Rightarrow> jsstring" where
  "str_or a d = (case a of Str s \<Rightarrow> if s \<noteq> [] then s else d | Undefined \<Rightarrow> d | Null \<Rightarrow> d)"

section \<open>HTML escaping and the print view\<close>

text \<open>
  The table of the replacement callback of \<open>escapeHtml\<close>. The pattern
  \<^verbatim>\<open>/[&<>"']/g\<close> selects exactly the keys of the table; every other code unit is copied.
\<close>

definition escapeChar :: "jschar \<Rightarrow> jsstring" where
  "escapeChar m =
     (if m = 0x26 then js ''&amp;''
      else if m = 0x3C then js ''&lt;''
      else if m = 0x3E then js ''&gt;''
      else if m = 0x22 then js ''&quot;''
      else if m = 0x27 then js ''&#39;''
      else [m])"

definition escapeHtml :: "jsval \<Rightarrow> jsstring" where
  "escapeHtml s = concat (map escapeChar (String_or_empty s))"

text \<open>The state \<open>qrFor\<close> of the QR modal: the two fields copied from a listed student.\<close>

record qrFor =
  qr_studentId :: jsval
  qr_name :: jsval

text \<open>The four fixed pieces of the template literal that \<open>printQR\<close> writes.\<close>

definition printQR_head :: jsstring where
  "printQR_head = js ''\<newline>      <html>\<newline>        <head><title>Print QR</title></head>\<newline>        <body style=\"font-family:Arial; text-align:center; padding:30px;\">\<newline>          <h2 style=\"margin:0 0 8px;\">''"

definition printQR_before_id :: jsstring where
  "printQR_before_id = js ''</h2>\<newline>          <div style=\"margin-bottom:10px; font-weight:bold;\">StudentID: ''"

definition printQR_before_img :: jsstring where
  "printQR_before_img = js ''</div>\<newline>          <img src=\"''"

definition printQR_tail :: jsstring where
  "printQR_tail = js ''\" style=\"width:260px; height:260px;\" />\<newline>          <div style=\"margin-top:14px; color:#555;\">Student360</div>\<newline>          <script>window.onload = () => window.print();</script>\<newline>        </body>\<newline>      </html>\<newline>    ''"

text \<open>
  \<open>printQR\<close>: the document written into the popup, or \<open>None\<close> when the function
  returns early (no image, no target, or the popup did not open).
\<close>

definition printQR :: "jsstring \<Rightarrow> qrFor option \<Rightarrow> bool \<Rightarrow> jsstring option" where
  "printQR qrDataUrl target window_opened =
     (case target of
        None \<Rightarrow> None
      | Some q \<Rightarrow>
          if qrDataUrl = [] then None
          else if \<not> window_opened then None
          else Some (printQR_head @ escapeHtml (js_or (qr_name q) (Str []))
                     @ printQR_before_id @ escapeHtml (qr_studentId q)
                     @ printQR_before_img @ qrDataUrl @ printQR_tail))"

section \<open>CSV parsing\<close>

text \<open>\<^verbatim>\<open>.replace(/\r\n/g, "\n")\<close>\<close>

fun replace_CRLF :: "jsstring \<Rightarrow> jsstring" where
  "replace_CRLF (c # d # r) =
     (if c = 0x0D \<and> d = 0x0A then 0x0A # replace_CRLF r else c # replace_CRLF (d # r))"
| "replace_CRLF [c] = [c]"
| "replace_CRLF [] = []"

text \<open>\<^verbatim>\<open>.replace(/\r/g, "\n")\<close>\<close>

definition replace_CR :: "jsstring \<Rightarrow> jsstring" where
  "replace_CR s = map (\<lambda>c. if c = 0x0D then 0x0A else c) s"

text \<open>\<^verbatim>\<open>.split("\n")\<close>: the empty string splits into one empty piece.\<close>

fun split_LF :: "jsstring \<Rightarrow> jsstring list" where
  "split_LF [] = [[]]"
| "split_LF (c # r) =
     (if c = 0x0A then [] # split_LF r
      else (case split_LF r of f # fs \<Rightarrow> (c # f) # fs | [] \<Rightarrow> [[c]]))"

text \<open>The lines of \<open>parseCSV\<close>; \<^verbatim>\<open>.filter(Boolean)\<close> drops the empty ones.\<close>

definition csv_lines :: "jsval \<Rightarrow> jsstring list" where
  "csv_lines text =
     filter (\<lambda>l. l \<noteq> []) (split_LF (replace_CR (replace_CRLF (String_or_empty text))))"

text \<open>
  The loop of \<open>splitCSVLine\<close>. \<open>prev\<close> is \<^verbatim>\<open>line[i - 1]\<close>, and \<open>None\<close> when
  \<^verbatim>\<open>i === 0\<close>.
\<close>

fun splitCSVLine_loop ::
  "jschar option \<Rightarrow> jsstring list \<Rightarrow> jsstring \<Rightarrow> bool \<Rightarrow> jsstring \<Rightarrow> jsstring list" where
  "splitCSVLine_loop prev out cur inQuotes [] = out @ [cur]"
| "splitCSVLine_loop prev out cur inQuotes (ch # rest) =
     (if ch = 0x22 \<and> (prev = None \<or> prev \<noteq> Some 0x5C)
      then splitCSVLine_loop (Some ch) out cur (\<not> inQuotes) rest
      else if ch = 0x2C \<and> \<not> inQuotes
      then splitCSVLine_loop (Some ch) (out @ [cur]) [] inQuotes rest
      else splitCSVLine_loop (Some ch) out (cur @ [ch]) inQuotes rest)"

definition splitCSVLine :: "jsstring \<Rightarrow> jsstring list" where
  "splitCSVLine line = splitCSVLine_loop None [] [] False line"

text \<open>
  A parsed row is the object \<open>obj\<close>: a map from header to trimmed cell. The callback of
  \<^verbatim>\<open>headers.forEach\<close> assigns \<^verbatim>\<open>(cols[idx] ?? "").trim()\<close>; a later header of the same
  name overwrites an earlier one, and assigning a string to the key \<open>__proto__\<close> leaves
  the object as it is. The importer reads the ten keys below only, none of which
  \<open>Object.prototype\<close> has, so a read of an unassigned key is \<open>undefined\<close>.
\<close>

type_synonym csv_row = "jsstring \<rightharpoonup> jsstring"

fun assign_columns :: "csv_row \<Rightarrow> nat \<Rightarrow> jsstring list \<Rightarrow> jsstring list \<Rightarrow> csv_row" where
  "assign_columns obj idx [] cols = obj"
| "assign_columns obj idx (h # hs) cols =
     assign_columns
       (if h = js ''__proto__'' then obj
        else obj(h \<mapsto> trim (if idx < length cols then cols ! idx else [])))
       (Suc idx) hs cols"

definition parseCSV :: "jsval \<Rightarrow> csv_row list" where
  "parseCSV text =
     (case csv_lines text of
        [] \<Rightarrow> []
      | l0 # ls \<Rightarrow>
          let headers = map trim (splitCSVLine l0)
          in map (\<lambda>l. assign_columns Map.empty 0 headers (splitCSVLine l)) ls)"

text \<open>\<^verbatim>\<open>r.key\<close>\<close>

definition get_prop :: "csv_row \<Rightarrow> string \<Rightarrow> jsval" where
  "get_prop r k = (case r (js k) of None \<Rightarrow> Undefined | Some v \<Rightarrow> Str v)"

section \<open>The cleaning step of the CSV import\<close>

record csv_student =
  row_studentId :: jsstring
  row_name :: jsstring
  row_grade :: jsstring
  row_section :: jsstring

text \<open>The two Arabic defaults of the source, as UTF-16 code units.\<close>

definition default_grade :: jsstring where
  "default_grade =
     [0x0627, 0x0644, 0x0635, 0x0641, 0x0020, 0x0627, 0x0644, 0x0623, 0x0648, 0x0644,
      0x0020, 0x0627, 0x0628, 0x062A, 0x062F, 0x0627, 0x0626, 0x064A]"

definition default_section :: jsstring where
  "default_section = [0x0623]"

definition cleanRow :: "(nat \<Rightarrow> nat list) \<Rightarrow> csv_row \<Rightarrow> csv_student" where
  "cleanRow ucd r =
     \<lparr> row_studentId =
         normalizeStudentId ucd
           (js_or (js_or (js_or (get_prop r ''studentId'') (get_prop r ''StudentID'')) (get_prop r ''id''))
              (get_prop r ''ID'')),
       row_name = trim (str_or (js_or (get_prop r ''name'') (get_prop r ''Name'')) []),
       row_grade = trim (str_or (js_or (get_prop r ''grade'') (get_prop r ''Grade'')) default_grade),
       row_section =
         trim (str_or (js_or (get_prop r ''section'') (get_prop r ''Section'')) default_section) \<rparr>"

text \<open>\<^verbatim>\<open>.filter((x) => x.studentId && x.name)\<close>\<close>

definition keep_row :: "csv_student \<Rightarrow> bool" where
  "keep_row x \<longleftrightarrow> row_studentId x \<noteq> [] \<and> row_name x \<noteq> []"

text \<open>The array \<open>cleaned\<close> of \<open>importCSV\<close>, and the slice that is written.\<close>

definition importCSV_cleaned :: "(nat \<Rightarrow> nat list) \<Rightarrow> jsval \<Rightarrow> csv_student list" where
  "importCSV_cleaned ucd text = filter keep_row (map (cleanRow ucd) (parseCSV text))"

definition importCSV_slice :: "(nat \<Rightarrow> nat list) \<Rightarrow> jsval \<Rightarrow> csv_student list" where
  "importCSV_slice ucd text = take 200 (importCSV_cleaned ucd text)"

section \<open>Sessions and the role resolver\<close>

text \<open>
  A value read from a table object: one of its own strings, or a member inherited from
  \<open>Object.prototype\<close> (named by its key), which is an object and truthy.
\<close>

datatype member = Text jsstring | Inherited jsstring

record session =
  s_uid :: jsstring
  s_role :: jsstring
  s_name :: member
  s_identifier :: jsval
  s_schoolId :: jsstring
  s_schoolName :: jsstring

definition SCHOOL_ID :: jsstring where
  "SCHOOL_ID = js ''demo-school''"

definition SCHOOL_NAME :: jsstring where
  "SCHOOL_NAME = js ''Demo School''"

text \<open>The default display name of the source, as UTF-16 code units.\<close>

definition default_name :: jsstring where
  "default_name = [0x0645, 0x0633, 0x062A, 0x062E, 0x062F, 0x0645]"

text \<open>The keys every object inherits from \<open>Object.prototype\<close>.\<close>

definition object_prototype_keys :: "jsstring list" where
  "object_prototype_keys =
     [js ''constructor'', js ''hasOwnProperty'', js ''isPrototypeOf'',
      js ''propertyIsEnumerable'', js ''toLocaleString'', js ''toString'', js ''valueOf'',
      js ''__proto__'', js ''__defineGetter__'', js ''__defineSetter__'',
      js ''__lookupGetter__'', js ''__lookupSetter__'']"

text \<open>\<^verbatim>\<open>ROLE_DEFAULT_NAMES[role] || <default name>\<close>\<close>

definition ROLE_DEFAULT_NAMES :: "jsstring \<Rightarrow> member" where
  "ROLE_DEFAULT_NAMES role =
     (if role = js ''admin''
      then Text [0x0623, 0x002F, 0x0020, 0x0645, 0x062F, 0x064A, 0x0631, 0x0020, 0x0627,
                 0x0644, 0x0645, 0x062F, 0x0631, 0x0633, 0x0629]
      else if role = js ''teacher''
      then Text [0x0623, 0x002F, 0x0020, 0x0623, 0x062D, 0x0645, 0x062F]
      else if role = js ''counselor''
      then Text [0x0623, 0x002F, 0x0020, 0x062A, 0x0648, 0x062C, 0x064A, 0x0647, 0x0020,
                 0x0637, 0x0644, 0x0627, 0x0628, 0x064A]
      else if role = js ''parent''
      then Text [0x0648, 0x0644, 0x064A, 0x0020, 0x0623, 0x0645, 0x0631]
      else if role \<in> set object_prototype_keys then Inherited role
      else Text default_name)"

text \<open>The identity of the identity provider; \<open>email\<close> may be \<open>null\<close>.\<close>

record fb_user =
  fb_uid :: jsstring
  fb_email :: jsval

text \<open>The fields read from the role document \<^verbatim>\<open>/users/{uid}\<close>.\<close>

record role_doc =
  rd_role :: jsval
  rd_email :: jsval

text \<open>
  What \<^verbatim>\<open>await getDoc(roleRef)\<close> does: it rejects, or yields a snapshot of a missing
  document, or a snapshot with data.
\<close>

datatype role_fetch = FetchRejects | SnapshotMissing | SnapshotData role_doc

text \<open>The session set when no role can be read; the two places that set it are alike.\<close>

definition unknown_session :: "fb_user \<Rightarrow> session" where
  "unknown_session u =
     \<lparr> s_uid = fb_uid u, s_role = js ''unknown'', s_name = Text default_name,
       s_identifier = js_or (fb_email u) (Str (fb_uid u)),
       s_schoolId = SCHOOL_ID, s_schoolName = SCHOOL_NAME \<rparr>"

text \<open>
  The body of the \<^verbatim>\<open>try\<close> block: \<open>Inl ()\<close> is a thrown exception, \<open>Inr\<close> the argument
  of the \<open>setSession\<close> it reaches.
\<close>

definition load_role_try :: "fb_user \<Rightarrow> role_fetch \<Rightarrow> unit + session" where
  "load_role_try u fetch =
     (case fetch of
        FetchRejects \<Rightarrow> Inl ()
      | SnapshotMissing \<Rightarrow> Inr (unknown_session u)
      | SnapshotData d \<Rightarrow>
          let role = str_or (rd_role d) (js ''unknown'');
              email = js_or (js_or (rd_email d) (fb_email u)) (Str (fb_uid u))
          in Inr \<lparr> s_uid = fb_uid u, s_role = role, s_name = ROLE_DEFAULT_NAMES role,
                   s_identifier = email, s_schoolId = SCHOOL_ID,
                   s_schoolName = SCHOOL_NAME \<rparr>)"

text \<open>The \<^verbatim>\<open>try\<close> with its \<^verbatim>\<open>catch\<close>, which sets the unknown session.\<close>

definition load_role :: "fb_user \<Rightarrow> role_fetch \<Rightarrow> unit + session" where
  "load_role u fetch =
     (case load_role_try u fetch of
        Inl e \<Rightarrow> Inr (unknown_session u)
      | Inr s \<Rightarrow> Inr s)"

text \<open>
  The effect that loads the session: the new value of the state \<open>session\<close>, from
  \<open>fbReady\<close>, \<open>fbUser\<close>, the outcome of the fetch and the old value. \<open>Inl ()\<close> would be
  an exception that escapes.
\<close>

definition session_effect ::
  "bool \<Rightarrow> fb_user option \<Rightarrow> role_fetch \<Rightarrow> session option \<Rightarrow> unit + session option" where
  "session_effect fbReady fbUser fetch old =
     (if \<not> fbReady then Inr old
      else (case fbUser of
              None \<Rightarrow> Inr None
            | Some u \<Rightarrow>
                (case load_role u fetch of Inl e \<Rightarrow> Inl e | Inr s \<Rightarrow> Inr (Some s))))"

section \<open>The student directory\<close>

record creator =
  by_role :: jsstring
  by_name :: member
  by_identifier :: jsval
  by_via :: "jsstring option"

text \<open>A student document; \<open>createdAt\<close> is the timestamp the server assigns.\<close>

record student_doc =
  doc_schoolId :: jsstring
  doc_studentId :: jsstring
  doc_name :: jsstring
  doc_grade :: jsstring
  doc_section :: jsstring
  doc_createdAt :: nat
  doc_createdBy :: creator

text \<open>
  \<open>studentDocRef\<close>: the path \<^verbatim>\<open>schools/{schoolId}/students/{studentId}\<close>, as its two
  variable segments.
\<close>

type_synonym doc_path = "jsstring \<times> jsstring"

type_synonym students = "doc_path \<rightharpoonup> student_doc"

definition studentDocRef :: "session \<Rightarrow> jsstring \<Rightarrow> doc_path" where
  "studentDocRef session sid = (s_schoolId session, sid)"

text \<open>
  A write sent to the document store: path, data and the \<open>merge\<close> option. A write
  without merge replaces the document; so does a merging one here, since a student
  document carries every field.
\<close>

datatype fs_write = SetDoc doc_path student_doc bool

fun apply_write :: "students \<Rightarrow> fs_write \<Rightarrow> students" where
  "apply_write db (SetDoc p d merge) = db(p \<mapsto> d)"

definition apply_writes :: "students \<Rightarrow> fs_write list \<Rightarrow> students" where
  "apply_writes db ws = foldl apply_write db ws"

text \<open>
  What the store does during one operation: the collection as \<open>getDoc\<close> reads it, whether
  \<open>getDoc\<close> rejects, whether the write (\<open>setDoc\<close> or \<open>batch.commit\<close>) rejects, the server
  timestamp, and the outcome of the query of \<open>loadLatest\<close> (\<open>None\<close> when it rejects).
\<close>

record store_env =
  db :: students
  getDoc_rejects :: bool
  write_rejects :: bool
  serverTimestamp :: nat
  getDocs_result :: "(jsstring \<times> student_doc) list option"

text \<open>
  The messages of the admin page, one constructor for each literal of the source, with
  the values the literal interpolates.
\<close>

datatype message =
    NoMessage
  | CreateNotAdmin
  | InvalidStudentId
  | MissingName
  | AlreadyExists jsstring
  | Added jsstring
  | CreateFailed
  | LoadLatestFailed
  | ImportNotAdmin
  | NoValidRows
  | Imported nat
  | ImportFailed

text \<open>The state of the admin page that the two operations read and set.\<close>

record admin_ui =
  studentId :: jsstring
  fullName :: jsstring
  grade :: jsstring
  sect :: jsstring
  msg :: message
  saving :: bool
  latest :: "(jsstring \<times> student_doc) list"
  loadingLatest :: bool

definition loadLatest :: "store_env \<Rightarrow> admin_ui \<Rightarrow> admin_ui" where
  "loadLatest env ui =
     (case getDocs_result env of
        Some items \<Rightarrow> ui\<lparr>msg := NoMessage, latest := items, loadingLatest := False\<rparr>
      | None \<Rightarrow> ui\<lparr>msg := LoadLatestFailed, loadingLatest := False\<rparr>)"

definition created_by :: "session \<Rightarrow> jsstring option \<Rightarrow> creator" where
  "created_by session via =
     \<lparr> by_role = s_role session, by_name = s_name session,
       by_identifier = s_identifier session, by_via = via \<rparr>"

text \<open>
  \<open>createStudent\<close>: the new state of the page and the writes sent to the store.
\<close>

definition createStudent ::
  "(nat \<Rightarrow> nat list) \<Rightarrow> session \<Rightarrow> store_env \<Rightarrow> admin_ui \<Rightarrow> admin_ui \<times> fs_write list" where
  "createStudent ucd session env ui0 =
     (let ui = ui0\<lparr>msg := NoMessage\<rparr> in
      if s_role session \<noteq> js ''admin'' then (ui\<lparr>msg := CreateNotAdmin\<rparr>, [])
      else
        let sid = normalizeStudentId ucd (Str (studentId ui)) in
        if sid = [] then (ui\<lparr>msg := InvalidStudentId\<rparr>, [])
        else if trim (fullName ui) = [] then (ui\<lparr>msg := MissingName\<rparr>, [])
        else if getDoc_rejects env then (ui\<lparr>msg := CreateFailed, saving := False\<rparr>, [])
        else
          (case db env (studentDocRef session sid) of
             Some existing \<Rightarrow> (ui\<lparr>msg := AlreadyExists sid, saving := False\<rparr>, [])
           | None \<Rightarrow>
               if write_rejects env then (ui\<lparr>msg := CreateFailed, saving := False\<rparr>, [])
               else
                 ((loadLatest env (ui\<lparr>msg := Added sid, studentId := [], fullName := []\<rparr>))
                    \<lparr>saving := False\<rparr>,
                  [SetDoc (studentDocRef session sid)
                     \<lparr> doc_schoolId = s_schoolId session, doc_studentId = sid,
                       doc_name = trim (fullName ui), doc_grade = grade ui,
                       doc_section = sect ui, doc_createdAt = serverTimestamp env,
                       doc_createdBy = created_by session None \<rparr>
                     False])))"

text \<open>The \<open>batch.set\<close> of one surviving row.\<close>

definition batch_set :: "session \<Rightarrow> store_env \<Rightarrow> csv_student \<Rightarrow> fs_write" where
  "batch_set session env s =
     SetDoc (studentDocRef session (row_studentId s))
       \<lparr> doc_schoolId = s_schoolId session, doc_studentId = row_studentId s,
         doc_name = row_name s, doc_grade = row_grade s, doc_section = row_section s,
         doc_createdAt = serverTimestamp env,
         doc_createdBy = created_by session (Some (js ''csv'')) \<rparr>
       False"

text \<open>
  \<open>importCSV\<close>: \<open>file\<close> is \<open>None\<close> when no file was chosen, \<open>Some None\<close> when
  reading its text rejects, \<open>Some (Some text)\<close> otherwise. The result is the new state of
  the page and the writes of the committed batch.
\<close>

definition importCSV ::
  "(nat \<Rightarrow> nat list) \<Rightarrow> session \<Rightarrow> store_env \<Rightarrow> jsstring option option \<Rightarrow> admin_ui
     \<Rightarrow> admin_ui \<times> fs_write list" where
  "importCSV ucd session env file ui0 =
     (let ui = ui0\<lparr>msg := NoMessage\<rparr> in
      case file of
        None \<Rightarrow> (ui, [])
      | Some read \<Rightarrow>
          if s_role session \<noteq> js ''admin'' then (ui\<lparr>msg := ImportNotAdmin\<rparr>, [])
          else
            (case read of
               None \<Rightarrow> (ui\<lparr>msg := ImportFailed\<rparr>, [])
             | Some text \<Rightarrow>
                 let cleaned = importCSV_cleaned ucd (Str text) in
                 if length cleaned = 0 then (ui\<lparr>msg := NoValidRows\<rparr>, [])
                 else if write_rejects env then (ui\<lparr>msg := ImportFailed\<rparr>, [])
                 else
                   (loadLatest env (ui\<lparr>msg := Imported (min (length cleaned) 200)\<rparr>),
                    map (batch_set session env) (take 200 cleaned))))"

section \<open>The scanner component\<close>









section \<open>Navigation and the student lookup\<close>

datatype page = PageDashboard | PageScanner | PageStudent | PageAdminStudents

datatype load_error = NoError | InvalidQR | StudentNotFound jsstring | LookupFailed

record app =
  page :: page
  student :: "student_doc option"
  studentLoadError :: load_error
  scanSession :: nat

text \<open>
  \<^verbatim>\<open>scanSessionRef.current += 1\<close> on a Number that holds a natural number: exact below
  \<open>2^53\<close>, where the sum rounds back to \<open>2^53\<close>.
\<close>

definition number_succ :: "nat \<Rightarrow> nat" where
  "number_succ n = (if n < 2 ^ 53 then n + 1 else n)"

definition navigate :: "page \<Rightarrow> app \<Rightarrow> app" where
  "navigate p a =
     a\<lparr>scanSession := number_succ (scanSession a), student := None,
       studentLoadError := NoError, page := p\<rparr>"

definition goDashboard :: "app \<Rightarrow> app" where
  "goDashboard a = navigate PageDashboard a"

definition goScanner :: "app \<Rightarrow> app" where
  "goScanner a = navigate PageScanner a"

definition goAdminStudents :: "app \<Rightarrow> app" where
  "goAdminStudents a = navigate PageAdminStudents a"

text \<open>
  \<open>openStudentById\<close> up to its \<^verbatim>\<open>await\<close>: it is done, or it has asked the store for the
  document of an id and waits.
\<close>

datatype lookup = Done app | AwaitGetDoc jsstring app

definition openStudentById :: "(nat \<Rightarrow> nat list) \<Rightarrow> app \<Rightarrow> jsval \<Rightarrow> nat \<Rightarrow> lookup" where
  "openStudentById ucd a studentIdRaw currentScanSessionId =
     (if currentScanSessionId \<noteq> scanSession a then Done a
      else
        let sid = normalizeStudentId ucd studentIdRaw in
        if sid = []
        then Done (a\<lparr>student := None, studentLoadError := InvalidQR, page := PageStudent\<rparr>)
        else AwaitGetDoc sid (a\<lparr>studentLoadError := NoError\<rparr>))"

text \<open>
  \<open>openStudentById\<close> after its \<^verbatim>\<open>await\<close>, on the state of that moment: \<open>None\<close> when
  \<open>getDoc\<close> rejected, \<open>Some None\<close> for a missing document. The spread of the data
  leaves the document's own \<open>studentId\<close>.
\<close>

definition openStudentById_resume :: "app \<Rightarrow> jsstring \<Rightarrow> student_doc option option \<Rightarrow> app" where
  "openStudentById_resume a sid snap =
     (case snap of
        None \<Rightarrow> a\<lparr>student := None, studentLoadError := LookupFailed, page := PageStudent\<rparr>
      | Some None \<Rightarrow>
          a\<lparr>student := None, studentLoadError := StudentNotFound sid, page := PageStudent\<rparr>
      | Some (Some d) \<Rightarrow> a\<lparr>student := Some d, page := PageStudent\<rparr>)"

text \<open>The store requests of a lookup: the ids whose documents it asks for.\<close>

fun lookups :: "lookup \<Rightarrow> jsstring list" where
  "lookups (Done a) = []"
| "lookups (AwaitGetDoc sid a) = [sid]"

text \<open>What a lookup leaves of the application state at its \<^verbatim>\<open>await\<close> or return.\<close>

fun lookup_state :: "lookup \<Rightarrow> app" where
  "lookup_state (Done a) = a"
| "lookup_state (AwaitGetDoc sid a) = a"


section \<open>Well-formed CSV text, for stating what the parser accepts\<close>






text \<open>
  A text as lines with their terminators: a line is non-empty and holds no line break.
\<close>

datatype eol = LF | CR | CRLF

fun eol_text :: "eol \<Rightarrow> jsstring" where
  "eol_text LF = [0x0A]"
| "eol_text CR = [0x0D]"
| "eol_text CRLF = [0x0D, 0x0A]"

definition no_line_break :: "jsstring \<Rightarrow> bool" where
  "no_line_break l \<longleftrightarrow> 0x0D \<notin> set l \<and> 0x0A \<notin> set l"

fun line_ok :: "jsstring \<times> eol \<Rightarrow> bool" where
  "line_ok (l, e) = (l \<noteq> [] \<and> no_line_break l)"

fun text_of_lines :: "(jsstring \<times> eol) list \<Rightarrow> jsstring" where
  "text_of_lines [] = []"
| "text_of_lines ((l, e) # r) = l @ eol_text e @ text_of_lines r"

section \<open>Concrete values, for evaluating the operations\<close>

text \<open>
  The session that \<open>load_role\<close> builds for an administrator, a store that holds the
  student \<open>S-7\<close>, and an admin form filled in with the same id.
\<close>

definition admin_session :: session where
  "admin_session =
     \<lparr> s_uid = js ''u1'', s_role = js ''admin'', s_name = ROLE_DEFAULT_NAMES (js ''admin''),
       s_identifier = Str (js ''admin@example.org''), s_schoolId = SCHOOL_ID,
       s_schoolName = SCHOOL_NAME \<rparr>"

definition existing_student :: student_doc where
  "existing_student =
     \<lparr> doc_schoolId = SCHOOL_ID, doc_studentId = js ''S-7'', doc_name = js ''Old'',
       doc_grade = js ''G1'', doc_section = js ''A'', doc_createdAt = 1,
       doc_createdBy = created_by admin_session None \<rparr>"

definition store_with_S7 :: store_env where
  "store_with_S7 =
     \<lparr> db = [(SCHOOL_ID, js ''S-7'') \<mapsto> existing_student], getDoc_rejects = False,
       write_rejects = False, serverTimestamp = 2, getDocs_result = Some [] \<rparr>"

definition form_S7 :: admin_ui where
  "form_S7 =
     \<lparr> studentId = js ''s7'', fullName = js ''New'', grade = js ''G2'', sect = js ''B'',
       msg = NoMessage, saving = False, latest = [], loadingLatest = False \<rparr>"


definition app_on_scanner :: "nat \<Rightarrow> app" where
  "app_on_scanner n =
     \<lparr> page = PageScanner, student = None, studentLoadError = NoError, scanSession = n \<rparr>"

section \<open>Properties of the string helpers\<close>

lemma filter_not_dropWhile: "filter (\<lambda>x. \<not> Q x) (dropWhile Q xs) = filter (\<lambda>x. \<not> Q x) xs"
  by (induction xs) auto

lemma removeWhiteSpace_trim: "removeWhiteSpace (trim s) = removeWhiteSpace s"
  by (simp add: removeWhiteSpace_def trim_def rev_filter [symmetric] filter_not_dropWhile)


lemma trim_no_ws: "list_all (\<lambda>c. \<not> isWhiteSpace c) s \<Longrightarrow> trim s = s"
  unfolding trim_def
  by (metis (mono_tags, lifting) dropWhile_eq_self_iff hd_in_set list_all_iff hd_rev rev_rev_ident rev_is_Nil_conv set_rev)

lemma removeWhiteSpace_no_ws: "list_all (\<lambda>c. \<not> isWhiteSpace c) s \<Longrightarrow> removeWhiteSpace s = s"
  by (simp add: removeWhiteSpace_def list_all_iff)

lemma toUpperCase_Nil: "toUpperCase ucd [] = []"
  by (simp add: toUpperCase_def CodePointsToString_def)

lemma toUpperCase_pair:
  "isLeadingSurrogate h \<Longrightarrow> isTrailingSurrogate l \<Longrightarrow>
   toUpperCase ucd (h # l # r) =
     CodePointsToString (upperCodePoint ucd (0x10000 + (unat h - 0xD800) * 0x400 + (unat l - 0xDC00)))
       @ toUpperCase ucd r"
  by (simp add: toUpperCase_def CodePointsToString_def)

lemma toUpperCase_single:
  "\<not> (isLeadingSurrogate h \<and> (case r of [] \<Rightarrow> False | l # _ \<Rightarrow> isTrailingSurrogate l)) \<Longrightarrow>
   toUpperCase ucd (h # r) = CodePointsToString (upperCodePoint ucd (unat h)) @ toUpperCase ucd r"
  by (cases r) (auto simp add: toUpperCase_def CodePointsToString_def)

lemma ascii_not_leading: "c < 0x80 \<Longrightarrow> \<not> isLeadingSurrogate c"
  by (simp add: isLeadingSurrogate_def word_less_nat_alt word_le_nat_alt)

lemma toUpperCase_ascii_other:
  assumes "c < 0x80" and "\<not> (0x61 \<le> c \<and> c \<le> 0x7A)"
  shows "toUpperCase ucd (c # r) = c # toUpperCase ucd r"
proof -
  have u: "unat c < 0x80" using assms(1) by (simp add: word_less_nat_alt)
  have n: "\<not> (0x61 \<le> unat c \<and> unat c \<le> 0x7A)" using assms(2) by (simp add: word_le_nat_alt)
  have "CodePointsToString (upperCodePoint ucd (unat c)) = [c]"
    using u n by (auto simp add: CodePointsToString_def upperCodePoint_def UTF16EncodeCodePoint_def)
  then show ?thesis
    using toUpperCase_single [of c r ucd] ascii_not_leading [OF assms(1)] by simp
qed

lemma toUpperCase_ascii_lower:
  assumes "0x61 \<le> c" and "c \<le> 0x7A"
  shows "toUpperCase ucd (c # r) = (c - 0x20) # toUpperCase ucd r"
proof -
  have lt: "c < 0x80" using assms(2) by (simp add: word_le_nat_alt word_less_nat_alt)
  have n: "0x61 \<le> unat c \<and> unat c \<le> 0x7A" using assms by (simp add: word_le_nat_alt)
  have "(of_nat (unat c - 32) :: jschar) = c - 0x20"
    using assms by (simp add: unat_sub word_le_nat_alt)
  then have "CodePointsToString (upperCodePoint ucd (unat c)) = [c - 0x20]"
    using n by (auto simp add: CodePointsToString_def upperCodePoint_def UTF16EncodeCodePoint_def)
  then show ?thesis
    using toUpperCase_single [of c r ucd] ascii_not_leading [OF lt] by simp
qed

lemma toUpperCase_keeps_colon: "0x3A \<in> set s \<Longrightarrow> 0x3A \<in> set (toUpperCase ucd s)"
proof (induction s rule: StringToCodePoints.induct)
  case 1
  then show ?case by simp
next
  case (2 c)
  then show ?case by (simp add: toUpperCase_ascii_other toUpperCase_Nil)
next
  case (3 h l r)
  show ?case
  proof (cases "isLeadingSurrogate h \<and> isTrailingSurrogate l")
    case True
    then have "h \<noteq> 0x3A" "l \<noteq> 0x3A"
      by (auto simp add: isLeadingSurrogate_def isTrailingSurrogate_def)
    with 3 True show ?thesis by (simp add: toUpperCase_pair)
  next
    case False
    show ?thesis
    proof (cases "h = 0x3A")
      case True
      then show ?thesis by (simp add: toUpperCase_ascii_other)
    next
      case h: False
      with 3 False have "0x3A \<in> set (toUpperCase ucd (l # r))" by simp
      moreover have "toUpperCase ucd (h # l # r) =
          CodePointsToString (upperCodePoint ucd (unat h)) @ toUpperCase ucd (l # r)"
        using False by (intro toUpperCase_single) simp
      ultimately show ?thesis by simp
    qed
  qed
qed

lemma includes_colon: "includes_str s (js ''://'') \<Longrightarrow> 0x3A \<in> set s"
  by (induction s) (auto simp add: startsWith_def js_def dest: in_set_takeD)

lemma match_chars:
  "match_S_digits s \<or> match_digits s \<Longrightarrow> list_all (\<lambda>c. c = 0x53 \<or> c = 0x2D \<or> isDigit c) s"
  by (induction s rule: match_S_digits.induct)
     (auto simp add: match_digits_def list_all_iff split: if_splits)

lemma match_hd:
  "match_S_digits s \<or> match_digits s \<Longrightarrow> \<exists>c r. s = c # r \<and> (c = 0x53 \<or> isDigit c)"
  by (induction s rule: match_S_digits.induct) (auto simp add: match_digits_def)

lemma match_not_rejected:
  assumes "match_S_digits (toUpperCase ucd s) \<or> match_digits (toUpperCase ucd s)"
  shows "\<not> startsWith s (js ''{'')" and "\<not> startsWith s (js ''http'')"
    and "\<not> includes_str s (js ''://'')"
proof -
  from match_hd [OF assms] obtain c r where
    cr: "toUpperCase ucd s = c # r" "c = 0x53 \<or> isDigit c" by blast
  show "\<not> startsWith s (js ''{'')"
  proof
    assume "startsWith s (js ''{'')"
    then obtain t where "s = 0x7B # t" by (cases s) (auto simp add: startsWith_def js_def)
    then have "toUpperCase ucd s = 0x7B # toUpperCase ucd t"
      by (simp add: toUpperCase_ascii_other)
    with cr show False by (auto simp add: isDigit_def)
  qed
  show "\<not> startsWith s (js ''http'')"
  proof
    assume "startsWith s (js ''http'')"
    then obtain t where "s = 0x68 # t" by (cases s) (auto simp add: startsWith_def js_def)
    then have "toUpperCase ucd s = 0x48 # toUpperCase ucd t"
      by (simp add: toUpperCase_ascii_lower)
    with cr show False by (auto simp add: isDigit_def)
  qed
  show "\<not> includes_str s (js ''://'')"
  proof
    assume "includes_str s (js ''://'')"
    then have "0x3A \<in> set (toUpperCase ucd s)"
      by (intro toUpperCase_keeps_colon includes_colon)
    with match_chars [OF assms] show False
      by (auto simp add: list_all_iff isDigit_def)
  qed
qed

lemma startsWith_S: "startsWith s (js ''S'') \<longleftrightarrow> (\<exists>r. s = 0x53 # r)"
  by (cases s) (auto simp add: startsWith_def js_def)

lemma normalizeStudentId_cases:
  "normalizeStudentId ucd raw =
     (if match_S_digits (upper_form ucd raw) then replace_S_prefix (upper_form ucd raw)
      else if match_digits (upper_form ucd raw) then upper_form ucd raw
      else [])"
proof (cases "match_S_digits (upper_form ucd raw) \<or> match_digits (upper_form ucd raw)")
  case False
  then show ?thesis
    by (simp add: normalizeStudentId_def upper_form_def cleaned_form_def Let_def)
next
  case True
  let ?t = "trim (String_or_empty raw)"
  have m: "match_S_digits (toUpperCase ucd (removeWhiteSpace ?t)) \<or>
           match_digits (toUpperCase ucd (removeWhiteSpace ?t))"
    using True by (simp add: upper_form_def cleaned_form_def)
  have t: "?t \<noteq> []"
  proof
    assume "?t = []"
    with m show False
      by (simp add: removeWhiteSpace_def toUpperCase_Nil match_digits_def)
  qed
  have S: "match_S_digits s \<Longrightarrow> startsWith s (js ''S'')" for s
    by (cases s rule: match_S_digits.cases) (simp_all add: startsWith_S)
  have D: "match_digits s \<Longrightarrow> \<not> match_S_digits s \<Longrightarrow> \<not> startsWith s (js ''S'')" for s
    by (cases s) (auto simp add: startsWith_S match_digits_def isDigit_def)
  show ?thesis
    using m t match_not_rejected [OF m] S D
    by (auto simp add: normalizeStudentId_def upper_form_def cleaned_form_def Let_def)
qed

lemma isDigit_not_S [simp]: "\<not> isDigit 0x53"
  by (simp add: isDigit_def)

lemma isDigit_not_hyphen [simp]: "\<not> isDigit 0x2D"
  by (simp add: isDigit_def)

lemma replace_S_prefix_match:
  "match_S_digits s \<Longrightarrow> replace_S_prefix s = js ''S-'' @ filter isDigit s"
  by (cases s rule: match_S_digits.cases)
     (auto simp add: js_def list_all_iff filter_id_conv split: if_splits)

lemma filter_isDigit_match:
  "match_S_digits s \<Longrightarrow> filter isDigit s \<noteq> []"
  by (cases s rule: match_S_digits.cases)
     (auto simp add: list_all_iff filter_empty_conv neq_Nil_conv split: if_splits)

lemma toUpperCase_id:
  "list_all (\<lambda>c. c = 0x53 \<or> c = 0x2D \<or> isDigit c) s \<Longrightarrow> toUpperCase ucd s = s"
proof (induction s)
  case Nil
  then show ?case by (simp add: toUpperCase_Nil)
next
  case (Cons c s)
  then have "c < 0x80" and "\<not> (0x61 \<le> c \<and> c \<le> 0x7A)"
    by (auto simp add: isDigit_def word_less_nat_alt word_le_nat_alt)
  with Cons show ?case by (simp add: toUpperCase_ascii_other)
qed

lemma id_chars_no_ws:
  "list_all (\<lambda>c. c = 0x53 \<or> c = 0x2D \<or> isDigit c) s \<Longrightarrow> list_all (\<lambda>c. \<not> isWhiteSpace c) s"
  by (auto simp add: list_all_iff isWhiteSpace_def isDigit_def word_le_nat_alt)

lemma upper_form_id:
  assumes "list_all (\<lambda>c. c = 0x53 \<or> c = 0x2D \<or> isDigit c) s"
  shows "upper_form ucd (Str s) = s"
  using assms
  by (simp add: upper_form_def cleaned_form_def trim_no_ws removeWhiteSpace_no_ws
      id_chars_no_ws toUpperCase_id)

lemma canonical_match:
  "ds \<noteq> [] \<Longrightarrow> list_all isDigit ds \<Longrightarrow> match_S_digits (js ''S-'' @ ds)"
  by (cases ds) (simp_all add: js_def)

lemma normalizeStudentId_twice:
  "normalizeStudentId ucd (Str (normalizeStudentId ucd raw)) = normalizeStudentId ucd raw"
proof -
  let ?s = "upper_form ucd raw"
  consider (S) "match_S_digits ?s" | (D) "\<not> match_S_digits ?s" "match_digits ?s"
    | (N) "\<not> match_S_digits ?s" "\<not> match_digits ?s" by blast
  then show ?thesis
  proof cases
    case S
    let ?r = "js ''S-'' @ filter isDigit ?s"
    have r: "normalizeStudentId ucd raw = ?r"
      using S by (simp add: normalizeStudentId_cases replace_S_prefix_match)
    have m: "match_S_digits ?r"
      using S by (intro canonical_match filter_isDigit_match) (simp_all add: list_all_iff)
    have "list_all (\<lambda>c. c = 0x53 \<or> c = 0x2D \<or> isDigit c) ?r"
      by (simp add: js_def list_all_iff)
    then have u: "upper_form ucd (Str ?r) = ?r" by (rule upper_form_id)
    have "replace_S_prefix ?r = ?r" by (simp add: js_def)
    with r m u show ?thesis by (simp add: normalizeStudentId_cases [of ucd "Str ?r"])
  next
    case D
    have r: "normalizeStudentId ucd raw = ?s"
      using D by (simp add: normalizeStudentId_cases)
    have "list_all (\<lambda>c. c = 0x53 \<or> c = 0x2D \<or> isDigit c) ?s"
      using D(2) by (intro match_chars) simp
    then have u: "upper_form ucd (Str ?s) = ?s" by (rule upper_form_id)
    with r D show ?thesis by (simp add: normalizeStudentId_cases [of ucd "Str ?s"])
  next
    case N
    then have r: "normalizeStudentId ucd raw = []"
      by (simp add: normalizeStudentId_cases)
    have "normalizeStudentId ucd (Str []) = []"
      by (simp add: normalizeStudentId_def trim_def)
    with r show ?thesis by simp
  qed
qed

lemmas normalize_eval =
  normalizeStudentId_def js_def trim_def isWhiteSpace_def removeWhiteSpace_def startsWith_def
  toUpperCase_def isLeadingSurrogate_def isTrailingSurrogate_def upperCodePoint_def
  CodePointsToString_def UTF16EncodeCodePoint_def match_digits_def isDigit_def

lemma match_S_digits_shape:
  "match_S_digits s \<Longrightarrow> s = js ''S'' @ filter isDigit s \<or> s = js ''S-'' @ filter isDigit s"
  by (cases s rule: match_S_digits.cases)
     (auto simp add: js_def list_all_iff filter_id_conv split: if_splits)

lemma match_both_False: "match_S_digits s \<Longrightarrow> match_digits s \<Longrightarrow> False"
  by (cases s rule: match_S_digits.cases) (auto simp add: match_digits_def isDigit_def)

section \<open>Properties of the student-ID normalizer\<close>

text \<open>
  Claim C1, as the code has it. When the upper-cased form of the input matches
  \<^verbatim>\<open>^S-?\d+$\<close>, \<open>normalizeStudentId\<close> returns \<open>S-\<close> followed by the digits of that form,
  inserting the hyphen if it is absent. When the form matches \<^verbatim>\<open>^\d+$\<close>, the function returns
  the digits as they are: the source prefixes nothing to a form that does not start with
  \<open>S\<close>. So \<open>normalizeStudentId("10025")\<close> is \<open>"10025"\<close>, while \<open>"s10025"\<close> and
  \<open>"S-10025"\<close> both give \<open>"S-10025"\<close>. This holds for every upper-case mapping \<open>ucd\<close> of
  the code points outside ASCII.
\<close>

theorem normalizeStudentId_canonical:
  "(match_S_digits (upper_form ucd raw) \<longrightarrow>
      normalizeStudentId ucd raw = js ''S-'' @ filter isDigit (upper_form ucd raw) \<and>
      filter isDigit (upper_form ucd raw) \<noteq> [] \<and>
      (upper_form ucd raw = js ''S'' @ filter isDigit (upper_form ucd raw) \<or>
       upper_form ucd raw = js ''S-'' @ filter isDigit (upper_form ucd raw))) \<and>
   (match_digits (upper_form ucd raw) \<longrightarrow> normalizeStudentId ucd raw = upper_form ucd raw) \<and>
   normalizeStudentId ucd (Str (js ''10025'')) = js ''10025'' \<and>
   normalizeStudentId ucd (Str (js ''s10025'')) = js ''S-10025'' \<and>
   normalizeStudentId ucd (Str (js ''S-10025'')) = js ''S-10025''"
proof -
  have S: "normalizeStudentId ucd raw = js ''S-'' @ filter isDigit (upper_form ucd raw)"
    if "match_S_digits (upper_form ucd raw)"
    using that by (simp add: normalizeStudentId_cases replace_S_prefix_match)
  have F: "upper_form ucd raw = js ''S'' @ filter isDigit (upper_form ucd raw) \<or>
           upper_form ucd raw = js ''S-'' @ filter isDigit (upper_form ucd raw)"
    if "match_S_digits (upper_form ucd raw)"
    using that by (rule match_S_digits_shape)
  have D: "normalizeStudentId ucd raw = upper_form ucd raw"
    if "match_digits (upper_form ucd raw)"
    using that
    by (cases "match_S_digits (upper_form ucd raw)")
       (auto simp add: normalizeStudentId_cases dest: match_both_False)
  have e1: "normalizeStudentId ucd (Str (js ''10025'')) = js ''10025''"
    by (simp add: normalize_eval)
  have e2: "normalizeStudentId ucd (Str (js ''s10025'')) = js ''S-10025''"
    by (simp add: normalize_eval)
  have e3: "normalizeStudentId ucd (Str (js ''S-10025'')) = js ''S-10025''"
    by (simp add: normalize_eval)
  from S F D e1 e2 e3 filter_isDigit_match show ?thesis by blast
qed

text \<open>
  The theorem at two inputs: long s (U+017F), whose upper case is \<open>S\<close>, followed by
  spaced digits; and digits alone.
\<close>

theorem normalizeStudentId_canonical_witness:
  "match_S_digits (upper_form latin1_upper (Str (0x17F # js '' 100 25 ''))) \<and>
   normalizeStudentId latin1_upper (Str (0x17F # js '' 100 25 '')) = js ''S-10025'' \<and>
   match_digits (upper_form latin1_upper (Str (js '' 10025''))) \<and>
   normalizeStudentId latin1_upper (Str (js '' 10025'')) = js ''10025''"
proof -
  have a: "upper_form latin1_upper (Str (0x17F # js '' 100 25 '')) = js ''S10025''"
    by (simp add: normalize_eval upper_form_def cleaned_form_def latin1_upper_def)
  have b: "upper_form latin1_upper (Str (js '' 10025'')) = js ''10025''"
    by (simp add: normalize_eval upper_form_def cleaned_form_def)
  have ma: "match_S_digits (js ''S10025'')" by (simp add: js_def isDigit_def)
  have mb: "match_digits (js ''10025'')" by (simp add: js_def isDigit_def match_digits_def)
  have fa: "filter isDigit (js ''S10025'') = js ''10025''" by (simp add: js_def isDigit_def)
  show ?thesis
    using normalizeStudentId_canonical [of latin1_upper "Str (0x17F # js '' 100 25 '')"]
      normalizeStudentId_canonical [of latin1_upper "Str (js '' 10025'')"]
    by (simp add: a b ma mb fa) (simp add: js_def)
qed

text \<open>
  Claim C1 as the specification states it fails: the input \<open>"10025"\<close> is accepted, its
  upper-cased form matches \<^verbatim>\<open>^\d+$\<close>, and the result is \<open>"10025"\<close>, not \<open>"S-10025"\<close>.
\<close>

theorem normalizeStudentId_digits_counterexample:
  "match_digits (upper_form latin1_upper (Str (js ''10025''))) \<and>
   normalizeStudentId latin1_upper (Str (js ''10025'')) = js ''10025'' \<and>
   normalizeStudentId latin1_upper (Str (js ''10025'')) \<noteq> js ''S-10025''"
  by (simp add: normalize_eval upper_form_def cleaned_form_def)

text \<open>
  Claim C7. \<open>normalizeStudentId\<close> returns the empty string when the trimmed,
  whitespace-stripped form of the input begins with \<open>{\<close> or with \<open>http\<close> or contains
  \<open>://\<close>, when the input is empty (or \<open>undefined\<close> or \<open>null\<close>), and when the upper-cased
  form matches neither \<^verbatim>\<open>^S-?\d+$\<close> nor \<^verbatim>\<open>^\d+$\<close>; and it does so on the four inputs the
  specification lists.
\<close>

theorem normalizeStudentId_rejects:
  "(startsWith (cleaned_form raw) (js ''{'') \<or> startsWith (cleaned_form raw) (js ''http'') \<or>
    includes_str (cleaned_form raw) (js ''://'') \<or> String_or_empty raw = [] \<or>
    (\<not> match_S_digits (upper_form ucd raw) \<and> \<not> match_digits (upper_form ucd raw))
      \<longrightarrow> normalizeStudentId ucd raw = []) \<and>
   normalizeStudentId ucd (Str (js ''http://x'')) = [] \<and>
   normalizeStudentId ucd (Str (js ''{\"a\":1}'')) = [] \<and>
   normalizeStudentId ucd (Str (js '''')) = [] \<and>
   normalizeStudentId ucd (Str (js ''abc'')) = []"
proof -
  have e: "normalizeStudentId ucd raw = []" if "String_or_empty raw = []"
    using that by (simp add: normalizeStudentId_def trim_def)
  have r: "normalizeStudentId ucd raw = []"
    if "startsWith (cleaned_form raw) (js ''{'') \<or> startsWith (cleaned_form raw) (js ''http'') \<or>
        includes_str (cleaned_form raw) (js ''://'')"
    using that by (auto simp add: normalizeStudentId_def cleaned_form_def Let_def)
  have n: "normalizeStudentId ucd raw = []"
    if "\<not> match_S_digits (upper_form ucd raw) \<and> \<not> match_digits (upper_form ucd raw)"
    using that by (simp add: normalizeStudentId_cases)
  have e1: "normalizeStudentId ucd (Str (js ''http://x'')) = []"
    by (simp add: normalize_eval)
  have e2: "normalizeStudentId ucd (Str (js ''{\"a\":1}'')) = []"
    by (simp add: normalize_eval)
  have e3: "normalizeStudentId ucd (Str (js '''')) = []"
    by (simp add: normalize_eval)
  have e4: "normalizeStudentId ucd (Str (js ''abc'')) = []"
    by (simp add: normalize_eval)
  from e r n e1 e2 e3 e4 show ?thesis by blast
qed

text \<open>
  The theorem at a URL with a leading blank, a payload that is not an id, and at an id
  with a letter among its digits.
\<close>

theorem normalizeStudentId_rejects_witness:
  "startsWith (cleaned_form (Str (js '' http://x/S-1''))) (js ''http'') \<and>
   normalizeStudentId latin1_upper (Str (js '' http://x/S-1'')) = [] \<and>
   \<not> match_S_digits (upper_form latin1_upper (Str (js ''s-12a''))) \<and>
   \<not> match_digits (upper_form latin1_upper (Str (js ''s-12a''))) \<and>
   normalizeStudentId latin1_upper (Str (js ''s-12a'')) = []"
proof -
  have c: "cleaned_form (Str (js '' http://x/S-1'')) = js ''http://x/S-1''"
    by (simp add: cleaned_form_def normalize_eval)
  have s: "startsWith (js ''http://x/S-1'') (js ''http'')"
    by (simp add: startsWith_def js_def)
  have u: "upper_form latin1_upper (Str (js ''s-12a'')) = js ''S-12A''"
    by (simp add: upper_form_def cleaned_form_def normalize_eval)
  have m: "\<not> match_S_digits (js ''S-12A'')" "\<not> match_digits (js ''S-12A'')"
    by (simp_all add: js_def isDigit_def match_digits_def)
  show ?thesis
    using normalizeStudentId_rejects [of "Str (js '' http://x/S-1'')" latin1_upper]
      normalizeStudentId_rejects [of "Str (js ''s-12a'')" latin1_upper]
    by (simp add: c s u m)
qed

text \<open>
  Claim C8. \<open>normalizeStudentId\<close> is idempotent: normalizing a result gives the result
  again. The equation holds for every input, so in particular for every input with a
  valid (non-empty) result, and for every upper-case mapping \<open>ucd\<close>.
\<close>

theorem normalizeStudentId_idempotent:
  "normalizeStudentId ucd (Str (normalizeStudentId ucd x)) = normalizeStudentId ucd x"
  by (rule normalizeStudentId_twice)

section \<open>Properties of the CSV parser and of HTML escaping\<close>









lemma replace_CRLF_Cons: "c \<noteq> 0x0D \<Longrightarrow> replace_CRLF (c # r) = c # replace_CRLF r"
  by (cases r) simp_all

lemma replace_CRLF_append: "0x0D \<notin> set l \<Longrightarrow> replace_CRLF (l @ r) = l @ replace_CRLF r"
  by (induction l) (simp_all add: replace_CRLF_Cons)

lemma replace_CR_id: "0x0D \<notin> set l \<Longrightarrow> replace_CR l = l"
  by (induction l) (auto simp add: replace_CR_def)

lemma replace_CR_append: "replace_CR (a @ b) = replace_CR a @ replace_CR b"
  by (simp add: replace_CR_def)

lemma normalize_eol:
  assumes "r = [] \<or> hd r \<noteq> 0x0A"
  shows "replace_CR (replace_CRLF (eol_text e @ r)) = 0x0A # replace_CR (replace_CRLF r)"
proof (cases e)
  case LF
  then show ?thesis by (simp add: replace_CRLF_Cons replace_CR_def)
next
  case CR
  with assms show ?thesis by (cases r) (auto simp add: replace_CR_def)
next
  case CRLF
  then show ?thesis by (simp add: replace_CR_def)
qed

lemma split_LF_line: "0x0A \<notin> set l \<Longrightarrow> split_LF (l @ 0x0A # x) = l # split_LF x"
  by (induction l) auto

lemma split_LF_last: "0x0A \<notin> set l \<Longrightarrow> split_LF l = [l]"
  by (induction l) auto

lemma text_of_lines_hd:
  assumes "list_all line_ok les" and "no_line_break final"
  shows "text_of_lines les @ final = [] \<or> hd (text_of_lines les @ final) \<noteq> 0x0A"
proof (cases les)
  case Nil
  with assms(2) show ?thesis by (cases final) (auto simp add: no_line_break_def)
next
  case (Cons le r)
  obtain l e where "le = (l, e)" by (cases le)
  with Cons assms(1) show ?thesis
    by (cases l) (auto simp add: no_line_break_def)
qed

lemma csv_lines_of_text:
  "list_all line_ok les \<Longrightarrow> no_line_break final \<Longrightarrow>
   filter (\<lambda>l. l \<noteq> []) (split_LF (replace_CR (replace_CRLF (text_of_lines les @ final)))) =
     map fst les @ (if final = [] then [] else [final])"
proof (induction les)
  case Nil
  then show ?case
    by (simp add: no_line_break_def replace_CRLF_append [of final "[]", simplified]
        replace_CR_id split_LF_last)
next
  case (Cons le les)
  obtain l e where le: "le = (l, e)" by (cases le)
  from Cons.prems le have l: "l \<noteq> []" "0x0D \<notin> set l" "0x0A \<notin> set l"
    and les: "list_all line_ok les" by (auto simp add: no_line_break_def)
  let ?r = "text_of_lines les @ final"
  have "replace_CR (replace_CRLF (text_of_lines (le # les) @ final)) =
        replace_CR (l @ replace_CRLF (eol_text e @ ?r))"
    using le l(2) by (simp add: replace_CRLF_append)
  also have "\<dots> = l @ replace_CR (replace_CRLF (eol_text e @ ?r))"
    using l(2) by (simp add: replace_CR_append replace_CR_id)
  also have "\<dots> = l @ 0x0A # replace_CR (replace_CRLF ?r)"
    using text_of_lines_hd [OF les Cons.prems(2)] by (simp add: normalize_eol)
  finally have "split_LF (replace_CR (replace_CRLF (text_of_lines (le # les) @ final))) =
      l # split_LF (replace_CR (replace_CRLF ?r))"
    using l(3) by (simp add: split_LF_line)
  then show ?case
    using Cons.IH [OF les Cons.prems(2)] l(1) le by simp
qed


lemma escapeChar_clean:
  "0x3C \<notin> set (escapeChar c) \<and> 0x3E \<notin> set (escapeChar c) \<and>
   0x22 \<notin> set (escapeChar c) \<and> 0x27 \<notin> set (escapeChar c)"
  by (simp add: escapeChar_def js_def)

lemma escapeHtml_clean:
  "0x3C \<notin> set (escapeHtml v) \<and> 0x3E \<notin> set (escapeHtml v) \<and>
   0x22 \<notin> set (escapeHtml v) \<and> 0x27 \<notin> set (escapeHtml v)"
  using escapeChar_clean by (auto simp add: escapeHtml_def)

lemma escapeHtml_append:
  "escapeHtml (Str (a @ c # b)) = escapeHtml (Str a) @ escapeChar c @ escapeHtml (Str b)"
  by (simp add: escapeHtml_def)

lemma escapeHtml_js_or: "escapeHtml (js_or v (Str [])) = escapeHtml v"
  by (cases v) (simp_all add: js_or_def escapeHtml_def)

lemma escapeHtml_nullish:
  "escapeHtml Undefined = escapeHtml (Str []) \<and> escapeHtml Null = escapeHtml (Str []) \<and>
   escapeHtml (Str []) = []"
  by (simp add: escapeHtml_def)

lemma escapeChar_entities:
  "escapeChar 0x26 = js ''&amp;'' \<and> escapeChar 0x3C = js ''&lt;'' \<and>
   escapeChar 0x3E = js ''&gt;'' \<and> escapeChar 0x22 = js ''&quot;'' \<and>
   escapeChar 0x27 = js ''&#39;''"
  by (simp add: escapeChar_def)


lemma printQR_written:
  "printQR url (Some q) True =
     (if url = [] then None
      else Some (printQR_head @ escapeHtml (qr_name q) @ printQR_before_id @
                 escapeHtml (qr_studentId q) @ printQR_before_img @ url @ printQR_tail))"
  by (simp add: printQR_def escapeHtml_js_or)





text \<open>
  Claim C10. The result of \<open>escapeHtml\<close> holds none of the characters \<open><\<close>, \<open>>\<close>,
  \<open>"\<close> and \<open>'\<close>: the function replaces each of them, and every \<open>&\<close>, by its entity and
  copies every other code unit. On \<open>undefined\<close> and \<open>null\<close> it returns what it returns on
  the empty string, which is the empty string. The document that \<open>printQR\<close> writes holds
  the name and the id of the student as \<open>escapeHtml\<close> returns them.
\<close>

theorem escapeHtml_safe:
  "0x3C \<notin> set (escapeHtml v) \<and> 0x3E \<notin> set (escapeHtml v) \<and>
   0x22 \<notin> set (escapeHtml v) \<and> 0x27 \<notin> set (escapeHtml v) \<and>
   escapeHtml (Str (a @ c # b)) = escapeHtml (Str a) @ escapeChar c @ escapeHtml (Str b) \<and>
   escapeChar 0x26 = js ''&amp;'' \<and> escapeChar 0x3C = js ''&lt;'' \<and>
   escapeChar 0x3E = js ''&gt;'' \<and> escapeChar 0x22 = js ''&quot;'' \<and>
   escapeChar 0x27 = js ''&#39;'' \<and>
   escapeHtml Undefined = escapeHtml (Str []) \<and> escapeHtml Null = escapeHtml (Str []) \<and>
   escapeHtml (Str []) = [] \<and>
   printQR url (Some q) True =
     (if url = [] then None
      else Some (printQR_head @ escapeHtml (qr_name q) @ printQR_before_id @
                 escapeHtml (qr_studentId q) @ printQR_before_img @ url @ printQR_tail))"
  using escapeHtml_clean [of v] escapeHtml_append [of a c b] escapeChar_entities
    escapeHtml_nullish printQR_written [of url q]
  by blast

section \<open>Properties of the CSV import\<close>

lemmas import_eval =
  importCSV_cleaned_def parseCSV_def csv_lines_def replace_CR_def splitCSVLine_def
  cleanRow_def get_prop_def js_or_def str_or_def keep_row_def

lemma cleaned_example:
  "importCSV_cleaned ucd (Str (js ''studentId,name,grade,section\<newline>10025,Ahmed,Grade1,A'')) =
     [\<lparr>row_studentId = js ''10025'', row_name = js ''Ahmed'', row_grade = js ''Grade1'',
       row_section = js ''A''\<rparr>]"
  by (simp add: import_eval normalize_eval)

lemma cleaned_missing_name:
  "importCSV_cleaned ucd
     (Str (js ''studentId,name,grade,section\<newline>10026,,Grade1,A\<newline>10025,Ahmed,Grade1,A'')) =
     [\<lparr>row_studentId = js ''10025'', row_name = js ''Ahmed'', row_grade = js ''Grade1'',
       row_section = js ''A''\<rparr>]"
  by (simp add: import_eval normalize_eval)

lemma trim_Nil: "trim [] = []"
  by (simp add: trim_def)

lemma keep_row_needs_name:
  "\<not> truthy (get_prop r ''name'') \<Longrightarrow> \<not> truthy (get_prop r ''Name'') \<Longrightarrow>
   \<not> keep_row (cleanRow ucd r)"
  by (cases "get_prop r ''Name''")
     (simp_all add: keep_row_def cleanRow_def js_or_def str_or_def trim_Nil)

lemma cleaned_all_kept: "list_all keep_row (importCSV_cleaned ucd t)"
  by (simp add: importCSV_cleaned_def list_all_iff)

lemma example_header_lines:
  "csv_lines (Str (text_of_lines
      ((js ''studentId,name,grade,section'', LF) # replicate n (js ''10025,Ahmed,Grade1,A'', LF)))) =
   js ''studentId,name,grade,section'' # replicate n (js ''10025,Ahmed,Grade1,A'')"
proof -
  have "list_all line_ok
      ((js ''studentId,name,grade,section'', LF) # replicate n (js ''10025,Ahmed,Grade1,A'', LF))"
    by (simp add: list_all_iff js_def no_line_break_def)
  moreover have "no_line_break []" by (simp add: no_line_break_def)
  ultimately show ?thesis
    using csv_lines_of_text
      [of "(js ''studentId,name,grade,section'', LF) # replicate n (js ''10025,Ahmed,Grade1,A'', LF)"
          "[]"]
    by (simp add: csv_lines_def del: text_of_lines.simps)
qed

lemma example_row_cleaned:
  "cleanRow ucd
     (assign_columns Map.empty 0 (map trim (splitCSVLine (js ''studentId,name,grade,section'')))
        (splitCSVLine (js ''10025,Ahmed,Grade1,A''))) =
   \<lparr>row_studentId = js ''10025'', row_name = js ''Ahmed'', row_grade = js ''Grade1'',
     row_section = js ''A''\<rparr>"
  by (simp add: import_eval normalize_eval)

lemma cleaned_n_rows:
  "importCSV_cleaned ucd (Str (text_of_lines
      ((js ''studentId,name,grade,section'', LF) # replicate n (js ''10025,Ahmed,Grade1,A'', LF)))) =
   replicate n \<lparr>row_studentId = js ''10025'', row_name = js ''Ahmed'',
                 row_grade = js ''Grade1'', row_section = js ''A''\<rparr>"
proof -
  have k: "keep_row \<lparr>row_studentId = js ''10025'', row_name = js ''Ahmed'',
                     row_grade = js ''Grade1'', row_section = js ''A''\<rparr>"
    by (simp add: keep_row_def js_def)
  show ?thesis
    unfolding importCSV_cleaned_def parseCSV_def example_header_lines
    by (simp add: example_row_cleaned k Let_def del: replicate.simps)
qed

lemma importCSV_writes_length:
  "length (snd (importCSV ucd session env file ui)) \<le> 200"
  by (simp add: importCSV_def Let_def split: option.splits)

text \<open>
  Claim C2, as the code has it. From the header \<open>studentId,name,grade,section\<close> and the
  single data row \<open>10025,Ahmed,Grade1,A\<close> the import builds exactly one cleaned record,
  whose \<open>studentId\<close> is \<open>"10025"\<close> (the normalizer adds no \<open>S-\<close> to digits), with name
  \<open>Ahmed\<close>, grade \<open>Grade1\<close> and section \<open>A\<close>. A row whose \<open>name\<close> and \<open>Name\<close> cells are
  both empty or absent is dropped, so every cleaned record has a name and an id. At most
  200 records are written, whatever the file; a file of 250 valid data rows has 250
  cleaned records, of which 200 are written.
\<close>

theorem importCSV_pipeline:
  "importCSV_cleaned ucd (Str (js ''studentId,name,grade,section\<newline>10025,Ahmed,Grade1,A'')) =
     [\<lparr>row_studentId = js ''10025'', row_name = js ''Ahmed'', row_grade = js ''Grade1'',
       row_section = js ''A''\<rparr>] \<and>
   (\<not> truthy (get_prop r ''name'') \<and> \<not> truthy (get_prop r ''Name'') \<longrightarrow>
      \<not> keep_row (cleanRow ucd r)) \<and>
   list_all keep_row (importCSV_cleaned ucd t) \<and>
   importCSV_cleaned ucd
     (Str (js ''studentId,name,grade,section\<newline>10026,,Grade1,A\<newline>10025,Ahmed,Grade1,A'')) =
     [\<lparr>row_studentId = js ''10025'', row_name = js ''Ahmed'', row_grade = js ''Grade1'',
       row_section = js ''A''\<rparr>] \<and>
   length (importCSV_slice ucd t) = min (length (importCSV_cleaned ucd t)) 200 \<and>
   length (snd (importCSV ucd session env file ui)) \<le> 200 \<and>
   length (importCSV_cleaned ucd (Str (text_of_lines
      ((js ''studentId,name,grade,section'', LF) #
       replicate 250 (js ''10025,Ahmed,Grade1,A'', LF))))) = 250 \<and>
   length (importCSV_slice ucd (Str (text_of_lines
      ((js ''studentId,name,grade,section'', LF) #
       replicate 250 (js ''10025,Ahmed,Grade1,A'', LF))))) = 200"
proof -
  have n: "\<not> keep_row (cleanRow ucd r)"
    if "\<not> truthy (get_prop r ''name'') \<and> \<not> truthy (get_prop r ''Name'')"
    using that by (simp add: keep_row_needs_name)
  have s: "length (importCSV_slice ucd t) = min (length (importCSV_cleaned ucd t)) 200"
    by (simp add: importCSV_slice_def)
  have c: "length (importCSV_cleaned ucd (Str (text_of_lines
      ((js ''studentId,name,grade,section'', LF) #
       replicate 250 (js ''10025,Ahmed,Grade1,A'', LF))))) = 250"
    by (simp only: cleaned_n_rows length_replicate)
  have d: "length (importCSV_slice ucd (Str (text_of_lines
      ((js ''studentId,name,grade,section'', LF) #
       replicate 250 (js ''10025,Ahmed,Grade1,A'', LF))))) = 200"
    by (simp only: importCSV_slice_def length_take c min.idem)
  from cleaned_example [of ucd] n cleaned_all_kept [of ucd t] cleaned_missing_name [of ucd] s
    importCSV_writes_length [of ucd session env "file" ui] c d
  show ?thesis by blast
qed

text \<open>
  The theorem at a row object with an id and an empty \<open>name\<close> cell.
\<close>

theorem importCSV_pipeline_witness:
  "\<not> truthy (get_prop [js ''studentId'' \<mapsto> js ''10026'', js ''name'' \<mapsto> []] ''name'') \<and>
   \<not> truthy (get_prop [js ''studentId'' \<mapsto> js ''10026'', js ''name'' \<mapsto> []] ''Name'') \<and>
   \<not> keep_row (cleanRow latin1_upper [js ''studentId'' \<mapsto> js ''10026'', js ''name'' \<mapsto> []])"
  using importCSV_pipeline
    [of latin1_upper "[js ''studentId'' \<mapsto> js ''10026'', js ''name'' \<mapsto> []]"]
  by (simp add: get_prop_def js_def)

text \<open>
  Claim C2 as the specification states it fails: the cleaned record of the data row
  \<open>10025,Ahmed,Grade1,A\<close> is not the one with \<open>studentId\<close> \<open>"S-10025"\<close>.
\<close>

theorem importCSV_pipeline_counterexample:
  "importCSV_cleaned latin1_upper
     (Str (js ''studentId,name,grade,section\<newline>10025,Ahmed,Grade1,A'')) \<noteq>
     [\<lparr>row_studentId = js ''S-10025'', row_name = js ''Ahmed'', row_grade = js ''Grade1'',
       row_section = js ''A''\<rparr>]"
  by (simp add: cleaned_example) (simp add: js_def)

section \<open>Properties of the session resolver\<close>

text \<open>
  Claim C6. For an authenticated identity, when the role document does not exist, and
  when fetching it fails, the effect sets a session with role \<open>unknown\<close>, the default
  display name, and the email of the identity, or its uid when it has no email, as
  identifier. Whatever the fetch does, the effect sets a session and no exception
  escapes.
\<close>

theorem role_degradation:
  "session_effect True (Some u) SnapshotMissing old = Inr (Some (unknown_session u)) \<and>
   session_effect True (Some u) FetchRejects old = Inr (Some (unknown_session u)) \<and>
   s_role (unknown_session u) = js ''unknown'' \<and>
   s_name (unknown_session u) = Text default_name \<and>
   s_identifier (unknown_session u) =
     (if truthy (fb_email u) then fb_email u else Str (fb_uid u)) \<and>
   (\<exists>s. session_effect True (Some u) fetch old = Inr (Some s))"
proof -
  have "\<exists>s. load_role u fetch = Inr s"
    by (cases fetch) (simp_all add: load_role_def load_role_try_def Let_def)
  then have "\<exists>s. session_effect True (Some u) fetch old = Inr (Some s)"
    by (auto simp add: session_effect_def)
  then show ?thesis
    by (simp add: session_effect_def load_role_def load_role_try_def unknown_session_def
        js_or_def)
qed

section \<open>Properties of the student directory\<close>

lemma createStudent_existing:
  assumes "db env (studentDocRef session (normalizeStudentId ucd (Str (studentId ui)))) = Some d"
  shows "snd (createStudent ucd session env ui) = []"
  using assms by (simp add: createStudent_def Let_def)

lemma createStudent_conflict:
  assumes "db env (studentDocRef session (normalizeStudentId ucd (Str (studentId ui)))) = Some d"
    and "s_role session = js ''admin''"
    and "normalizeStudentId ucd (Str (studentId ui)) \<noteq> []"
    and "trim (fullName ui) \<noteq> []"
    and "\<not> getDoc_rejects env"
  shows "msg (fst (createStudent ucd session env ui)) =
           AlreadyExists (normalizeStudentId ucd (Str (studentId ui)))"
  using assms by (simp add: createStudent_def Let_def)

lemma importCSV_ignores_db:
  "importCSV ucd session (env\<lparr>db := other\<rparr>) fl ui = importCSV ucd session env fl ui"
  by (simp add: importCSV_def batch_set_def loadLatest_def Let_def
      split: option.splits cong: map_cong)

lemma importCSV_writes:
  assumes "s_role session = js ''admin''" and "\<not> write_rejects env"
    and "importCSV_cleaned ucd (Str t) \<noteq> []"
  shows "snd (importCSV ucd session env (Some (Some t)) ui) =
           map (batch_set session env) (importCSV_slice ucd (Str t))"
  using assms by (simp add: importCSV_def importCSV_slice_def Let_def)

lemma importCSV_no_merge:
  "list_all (\<lambda>w. case w of SetDoc p d merge \<Rightarrow> \<not> merge) (snd (importCSV ucd session env fl ui))"
  by (simp add: importCSV_def batch_set_def Let_def list_all_iff split: option.splits)

lemma apply_writes_snoc: "apply_writes st (ws @ [w]) = apply_write (apply_writes st ws) w"
  by (simp add: apply_writes_def)

lemma apply_writes_batch:
  "x \<in> set rows \<Longrightarrow>
   \<exists>d. apply_writes st (map (batch_set session env) rows)
          (studentDocRef session (row_studentId x)) = Some d \<and>
        doc_studentId d = row_studentId x \<and> doc_createdBy d = created_by session (Some (js ''csv''))"
proof (induction rows rule: rev_induct)
  case Nil
  then show ?case by simp
next
  case (snoc y rows)
  show ?case
  proof (cases "row_studentId y = row_studentId x")
    case True
    then show ?thesis
      by (simp add: apply_writes_snoc batch_set_def)
  next
    case False
    with snoc.prems have "x \<in> set rows" by auto
    from snoc.IH [OF this] False show ?thesis
      by (simp add: apply_writes_snoc batch_set_def studentDocRef_def)
  qed
qed

text \<open>
  Claim C3. When a student document exists at the normalized id, \<open>createStudent\<close> sends
  no write, so the store stays as it is; and when the operation reaches the check (an
  administrator, a valid id, a name, a read that succeeds) the message is the conflict
  message with that id. \<open>importCSV\<close> does not depend on the documents of the store: it
  writes one document, without merge, for each of the first 200 cleaned rows, and after
  the batch every such row's path holds a document tagged \<open>csv\<close> with the row's id,
  whatever the store held there before.
\<close>

theorem create_checks_import_overwrites:
  "(db env (studentDocRef session (normalizeStudentId ucd (Str (studentId ui)))) \<noteq> None \<longrightarrow>
      snd (createStudent ucd session env ui) = [] \<and>
      apply_writes (db env) (snd (createStudent ucd session env ui)) = db env \<and>
      (s_role session = js ''admin'' \<and> normalizeStudentId ucd (Str (studentId ui)) \<noteq> [] \<and>
       trim (fullName ui) \<noteq> [] \<and> \<not> getDoc_rejects env \<longrightarrow>
         msg (fst (createStudent ucd session env ui)) =
           AlreadyExists (normalizeStudentId ucd (Str (studentId ui))))) \<and>
   importCSV ucd session (env\<lparr>db := other\<rparr>) fl ui = importCSV ucd session env fl ui \<and>
   list_all (\<lambda>w. case w of SetDoc p d merge \<Rightarrow> \<not> merge)
     (snd (importCSV ucd session env fl ui)) \<and>
   (s_role session = js ''admin'' \<and> \<not> write_rejects env \<and>
    importCSV_cleaned ucd (Str t) \<noteq> [] \<longrightarrow>
      snd (importCSV ucd session env (Some (Some t)) ui) =
        map (batch_set session env) (importCSV_slice ucd (Str t)) \<and>
      (\<forall>x. x \<in> set (importCSV_slice ucd (Str t)) \<longrightarrow>
         (\<exists>d. apply_writes st (snd (importCSV ucd session env (Some (Some t)) ui))
                 (studentDocRef session (row_studentId x)) = Some d \<and>
               doc_studentId d = row_studentId x \<and>
               doc_createdBy d = created_by session (Some (js ''csv'')))))"
proof -
  have a: "snd (createStudent ucd session env ui) = [] \<and>
      apply_writes (db env) (snd (createStudent ucd session env ui)) = db env"
    if "db env (studentDocRef session (normalizeStudentId ucd (Str (studentId ui)))) \<noteq> None"
    using that createStudent_existing [of env session ucd ui]
    by (auto simp add: apply_writes_def)
  have b: "msg (fst (createStudent ucd session env ui)) =
           AlreadyExists (normalizeStudentId ucd (Str (studentId ui)))"
    if "db env (studentDocRef session (normalizeStudentId ucd (Str (studentId ui)))) \<noteq> None"
      and "s_role session = js ''admin'' \<and> normalizeStudentId ucd (Str (studentId ui)) \<noteq> [] \<and>
       trim (fullName ui) \<noteq> [] \<and> \<not> getDoc_rejects env"
    using that createStudent_conflict [of env session ucd ui] by auto
  have c: "snd (importCSV ucd session env (Some (Some t)) ui) =
        map (batch_set session env) (importCSV_slice ucd (Str t))"
    if "s_role session = js ''admin'' \<and> \<not> write_rejects env \<and>
        importCSV_cleaned ucd (Str t) \<noteq> []"
    using that by (simp add: importCSV_writes)
  have d: "\<exists>d. apply_writes st (snd (importCSV ucd session env (Some (Some t)) ui))
                 (studentDocRef session (row_studentId x)) = Some d \<and>
               doc_studentId d = row_studentId x \<and>
               doc_createdBy d = created_by session (Some (js ''csv''))"
    if "s_role session = js ''admin'' \<and> \<not> write_rejects env \<and>
        importCSV_cleaned ucd (Str t) \<noteq> []" and "x \<in> set (importCSV_slice ucd (Str t))" for x
    using that by (simp add: c apply_writes_batch)
  from a b c d importCSV_ignores_db [of ucd session other env fl ui]
    importCSV_no_merge [of ucd session env fl ui]
  show ?thesis by blast
qed

text \<open>
  The theorem at a store that holds the student \<open>S-7\<close>: creating \<open>s7\<close> reports the
  conflict and writes nothing, while importing a file with the row \<open>S7,New\<close> replaces
  the document.
\<close>

theorem create_checks_import_overwrites_witness:
  "db store_with_S7
     (studentDocRef admin_session (normalizeStudentId latin1_upper (Str (studentId form_S7)))) =
     Some existing_student \<and>
   s_role admin_session = js ''admin'' \<and>
   normalizeStudentId latin1_upper (Str (studentId form_S7)) = js ''S-7'' \<and>
   trim (fullName form_S7) = js ''New'' \<and>
   getDoc_rejects store_with_S7 = False \<and> write_rejects store_with_S7 = False \<and>
   createStudent latin1_upper admin_session store_with_S7 form_S7 =
     (form_S7\<lparr>msg := AlreadyExists (js ''S-7'')\<rparr>, []) \<and>
   importCSV_slice latin1_upper (Str (js ''id,name\<newline>S7,New'')) =
     [\<lparr>row_studentId = js ''S-7'', row_name = js ''New'', row_grade = default_grade,
       row_section = default_section\<rparr>] \<and>
   apply_writes (db store_with_S7)
     (snd (importCSV latin1_upper admin_session store_with_S7
             (Some (Some (js ''id,name\<newline>S7,New''))) form_S7))
     (SCHOOL_ID, js ''S-7'') =
     Some \<lparr> doc_schoolId = SCHOOL_ID, doc_studentId = js ''S-7'', doc_name = js ''New'',
            doc_grade = default_grade, doc_section = default_section, doc_createdAt = 2,
            doc_createdBy = created_by admin_session (Some (js ''csv'')) \<rparr>"
proof -
  have n: "normalizeStudentId latin1_upper (Str (studentId form_S7)) = js ''S-7''"
    by (simp add: form_S7_def normalize_eval)
  have r: "s_role admin_session = js ''admin''" "s_schoolId admin_session = SCHOOL_ID"
    by (simp_all add: admin_session_def)
  have e: "db store_with_S7 (SCHOOL_ID, js ''S-7'') = Some existing_student"
    "\<not> getDoc_rejects store_with_S7" "\<not> write_rejects store_with_S7"
    "serverTimestamp store_with_S7 = 2"
    by (simp_all add: store_with_S7_def)
  have f: "trim (fullName form_S7) = js ''New''"
    by (simp add: form_S7_def trim_def js_def isWhiteSpace_def)
  have j: "js ''New'' \<noteq> []" "js ''S-7'' \<noteq> []"
    by (simp_all add: js_def)
  have c: "importCSV_cleaned latin1_upper (Str (js ''id,name\<newline>S7,New'')) =
     [\<lparr>row_studentId = js ''S-7'', row_name = js ''New'', row_grade = default_grade,
       row_section = default_section\<rparr>]"
    by (simp add: import_eval normalize_eval default_grade_def default_section_def)
  have m: "fst (createStudent latin1_upper admin_session store_with_S7 form_S7) =
      form_S7\<lparr>msg := AlreadyExists (js ''S-7''), saving := False\<rparr>"
    using n r e f j by (simp add: createStudent_def studentDocRef_def Let_def)
  have s: "form_S7\<lparr>msg := AlreadyExists (js ''S-7''), saving := False\<rparr> =
           form_S7\<lparr>msg := AlreadyExists (js ''S-7'')\<rparr>"
    by (simp add: form_S7_def)
  show ?thesis
    using create_checks_import_overwrites
      [of store_with_S7 admin_session latin1_upper form_S7 Map.empty None
          "js ''id,name\<newline>S7,New''" "db store_with_S7"]
    by (simp add: n r e f j c m s studentDocRef_def importCSV_slice_def batch_set_def
        apply_writes_def prod_eq_iff)
qed

section \<open>Properties of the scanner and of the stale-session check\<close>









lemma number_succ_greater: "n < 2 ^ 53 \<Longrightarrow> n < number_succ n"
  by (simp add: number_succ_def)

text \<open>
  Claim C5. When the token handed to \<open>openStudentById\<close> differs from the current
  scan-session counter, the function returns at once: it asks the store for nothing and
  leaves the page, the student and the error as they are. A navigation advances the
  counter (as long as it is below \<open>2^53\<close>, where a Number stops counting), so a token
  captured before a navigation is stale after it.
\<close>

theorem stale_token_discarded:
  "(token \<noteq> scanSession a \<longrightarrow>
      openStudentById ucd a raw token = Done a \<and>
      lookups (openStudentById ucd a raw token) = [] \<and>
      lookup_state (openStudentById ucd a raw token) = a) \<and>
   (token \<le> scanSession a \<and> scanSession a < 2 ^ 53 \<longrightarrow>
      openStudentById ucd (goScanner a) raw token = Done (goScanner a) \<and>
      openStudentById ucd (goDashboard a) raw token = Done (goDashboard a) \<and>
      openStudentById ucd (goAdminStudents a) raw token = Done (goAdminStudents a))"
proof -
  have s: "openStudentById ucd b raw token = Done b" if "token \<noteq> scanSession b" for b
    using that by (simp add: openStudentById_def)
  have n: "token \<noteq> scanSession (navigate p a)"
    if "token \<le> scanSession a \<and> scanSession a < 2 ^ 53" for p
    using that number_succ_greater [of "scanSession a"] by (simp add: navigate_def)
  from s [of a] s [of "navigate PageScanner a"] s [of "navigate PageDashboard a"]
    s [of "navigate PageAdminStudents a"] n
  show ?thesis
    by (auto simp add: goScanner_def goDashboard_def goAdminStudents_def)
qed

text \<open>
  The theorem at a scanner page of session 3: a valid id arrives with token 3 after the
  user has gone to the dashboard.
\<close>

theorem stale_token_discarded_witness:
  "(3::nat) \<noteq> scanSession (goDashboard (app_on_scanner 3)) \<and>
   (3::nat) \<le> scanSession (app_on_scanner 3) \<and> scanSession (app_on_scanner 3) < 2 ^ 53 \<and>
   openStudentById latin1_upper (goDashboard (app_on_scanner 3)) (Str (js ''S-10025'')) 3 =
     Done \<lparr> page = PageDashboard, student = None, studentLoadError = NoError, scanSession = 4 \<rparr> \<and>
   lookups (openStudentById latin1_upper (app_on_scanner 3) (Str (js ''S-10025'')) 3) =
     [js ''S-10025'']"
proof -
  have g: "goDashboard (app_on_scanner 3) =
      \<lparr> page = PageDashboard, student = None, studentLoadError = NoError, scanSession = 4 \<rparr>"
    by (simp add: goDashboard_def navigate_def app_on_scanner_def number_succ_def)
  have l: "lookups (openStudentById latin1_upper (app_on_scanner 3) (Str (js ''S-10025'')) 3) =
     [js ''S-10025'']"
    by (simp add: openStudentById_def app_on_scanner_def normalize_eval)
  show ?thesis
    using stale_token_discarded [of 3 "goDashboard (app_on_scanner 3)" latin1_upper "Str (js ''S-10025'')"]
      stale_token_discarded [of 3 "app_on_scanner 3" latin1_upper "Str (js ''S-10025'')"]
    by (simp add: g l)
qed

end
